theory Spec2Isabelle
  imports Complex_Main
begin

section \<open>Errors and calendar time\<close>

text \<open>
  Go's \<^verbatim>\<open>error\<close> interface values. \<open>EOF\<close> is the sentinel \<^verbatim>\<open>io.EOF\<close>,
  \<open>SyntaxError\<close> is \<^verbatim>\<open>*xml.SyntaxError\<close> with its message, \<open>ParseError\<close> is what
  \<^verbatim>\<open>time.Parse\<close> returns, and \<open>errorString\<close> is an error made by \<^verbatim>\<open>errors.New\<close> or
  \<^verbatim>\<open>fmt.Errorf\<close> (also every error of the operating system and the network).
\<close>

datatype error = EOF | SyntaxError string | ParseError string | errorString string

text \<open>
  A \<^verbatim>\<open>time.Time\<close> as its civil fields and its location: \<open>UTC\<close> when the text
  carried no offset or the letter Z, \<open>FixedZone\<close> with the offset in seconds east of
  Greenwich otherwise.
\<close>

datatype location = UTC | FixedZone int

record Time =
  year :: nat
  month :: nat
  day :: nat
  hour :: nat
  minute :: nat
  second :: nat
  nanosecond :: nat
  zone :: location

subsection \<open>The standard library's \<^verbatim>\<open>time.Parse\<close>, for the three layouts in use\<close>

text \<open>
  The three layouts \<^verbatim>\<open>parseDateTime\<close> passes to \<^verbatim>\<open>time.Parse\<close>.
\<close>

definition RFC3339 :: string where
  "RFC3339 = ''2006-01-02T15:04:05Z07:00''"

definition layoutMinutes :: string where
  "layoutMinutes = ''2006-01-02T15:04-07:00''"

definition layoutDate :: string where
  "layoutDate = ''2006-01-02''"

text \<open>
  The pieces \<^verbatim>\<open>time.Parse\<close> cuts a layout into: a four-digit year, two-digit month,
  day, minute and second, an hour of one or two digits, the zone \<^verbatim>\<open>Z07:00\<close> (the
  letter Z or a signed hh:mm), the zone \<^verbatim>\<open>-07:00\<close> (a signed hh:mm only), and literal
  text.
\<close>

datatype chunk =
    stdLongYear | stdZeroMonth | stdZeroDay | stdHour | stdZeroMinute | stdZeroSecond
  | stdISO8601ColonTZ | stdNumColonTZ | literal string

definition chunks :: "string \<Rightarrow> chunk list option" where
  "chunks layout =
     (if layout = RFC3339 then
        Some [stdLongYear, literal ''-'', stdZeroMonth, literal ''-'', stdZeroDay, literal ''T'',
              stdHour, literal '':'', stdZeroMinute, literal '':'', stdZeroSecond,
              stdISO8601ColonTZ]
      else if layout = layoutMinutes then
        Some [stdLongYear, literal ''-'', stdZeroMonth, literal ''-'', stdZeroDay, literal ''T'',
              stdHour, literal '':'', stdZeroMinute, stdNumColonTZ]
      else if layout = layoutDate then
        Some [stdLongYear, literal ''-'', stdZeroMonth, literal ''-'', stdZeroDay]
      else None)"

definition isDigit :: "char \<Rightarrow> bool" where
  "isDigit c = (48 \<le> (of_char c :: nat) \<and> (of_char c :: nat) \<le> 57)"

definition digitVal :: "char \<Rightarrow> nat" where
  "digitVal c = of_char c - 48"

text \<open>
  \<^verbatim>\<open>getnum(s, fixed)\<close>: one or two leading digits; exactly two when \<open>fixed\<close>.
\<close>

fun getnum :: "string \<Rightarrow> bool \<Rightarrow> (nat \<times> string) option" where
  "getnum (a # b # s) fixed =
     (if \<not> isDigit a then None
      else if \<not> isDigit b then (if fixed then None else Some (digitVal a, b # s))
      else Some (digitVal a * 10 + digitVal b, s))"
| "getnum [a] fixed =
     (if \<not> isDigit a then None else if fixed then None else Some (digitVal a, []))"
| "getnum [] fixed = None"

text \<open>The value of a run of decimal digits, most significant first.\<close>

definition atoi :: "string \<Rightarrow> nat" where
  "atoi s = foldl (\<lambda>n c. n * 10 + digitVal c) 0 s"

text \<open>
  A fraction of a second written after the seconds (\<^verbatim>\<open>.5\<close> or \<^verbatim>\<open>,123\<close>): the digits
  and the text after them. At most nine digits count.
\<close>

definition fraction :: "string \<Rightarrow> nat \<times> string" where
  "fraction value =
     (case value of
        p # d # rest \<Rightarrow>
          (if (p = CHR ''.'' \<or> p = CHR '','') \<and> isDigit d then
             (let ds = takeWhile isDigit (d # rest); ds9 = take 9 ds
              in (atoi ds9 * 10 ^ (9 - length ds9), dropWhile isDigit (d # rest)))
           else (0, value))
      | _ \<Rightarrow> (0, value))"

text \<open>A signed hh:mm zone offset, in seconds east of Greenwich.\<close>

definition numColonTZ :: "string \<Rightarrow> (int \<times> string) option" where
  "numColonTZ value =
     (case value of
        sg # h1 # h2 # c # m1 # m2 # rest \<Rightarrow>
          (if c \<noteq> CHR '':'' \<or> \<not> (isDigit h1 \<and> isDigit h2 \<and> isDigit m1 \<and> isDigit m2) then None
           else
             (let hr = digitVal h1 * 10 + digitVal h2; mm = digitVal m1 * 10 + digitVal m2;
                  off = int ((hr * 60 + mm) * 60)
              in if hr > 24 \<or> mm > 60 then None
                 else if sg = CHR ''+'' then Some (off, rest)
                 else if sg = CHR ''-'' then Some (- off, rest)
                 else None))
      | _ \<Rightarrow> None)"

definition daysIn :: "nat \<Rightarrow> nat \<Rightarrow> nat" where
  "daysIn m y =
     (if m = 2 then (if y mod 4 = 0 \<and> (y mod 100 \<noteq> 0 \<or> y mod 400 = 0) then 29 else 28)
      else if m \<in> {4, 6, 9, 11} then 30 else 31)"

text \<open>
  One piece of the layout against the front of the value: the fields read so far, updated,
  and the rest of the value; \<open>None\<close> when the value does not fit.
\<close>

fun parseChunk :: "chunk \<Rightarrow> Time \<times> string \<Rightarrow> (Time \<times> string) option" where
  "parseChunk (literal p) (t, value) =
     (if take (length p) value = p then Some (t, drop (length p) value) else None)"
| "parseChunk stdLongYear (t, value) =
     (if length value < 4 \<or> \<not> list_all isDigit (take 4 value) then None
      else Some (t\<lparr>year := atoi (take 4 value)\<rparr>, drop 4 value))"
| "parseChunk stdZeroMonth (t, value) =
     (case getnum value True of
        None \<Rightarrow> None
      | Some (n, rest) \<Rightarrow> if n = 0 \<or> 12 < n then None else Some (t\<lparr>month := n\<rparr>, rest))"
| "parseChunk stdZeroDay (t, value) =
     (case getnum value True of
        None \<Rightarrow> None
      | Some (n, rest) \<Rightarrow> Some (t\<lparr>day := n\<rparr>, rest))"
| "parseChunk stdHour (t, value) =
     (case getnum value False of
        None \<Rightarrow> None
      | Some (n, rest) \<Rightarrow> if 24 \<le> n then None else Some (t\<lparr>hour := n\<rparr>, rest))"
| "parseChunk stdZeroMinute (t, value) =
     (case getnum value True of
        None \<Rightarrow> None
      | Some (n, rest) \<Rightarrow> if 60 \<le> n then None else Some (t\<lparr>minute := n\<rparr>, rest))"
| "parseChunk stdZeroSecond (t, value) =
     (case getnum value True of
        None \<Rightarrow> None
      | Some (n, rest) \<Rightarrow>
          if 60 \<le> n then None
          else Some (t\<lparr>second := n, nanosecond := fst (fraction rest)\<rparr>, snd (fraction rest)))"
| "parseChunk stdISO8601ColonTZ (t, value) =
     (case value of
        c # rest \<Rightarrow>
          (if c = CHR ''Z'' then Some (t\<lparr>zone := UTC\<rparr>, rest)
           else (case numColonTZ value of
                   None \<Rightarrow> None
                 | Some (off, rest') \<Rightarrow> Some (t\<lparr>zone := FixedZone off\<rparr>, rest')))
      | [] \<Rightarrow> None)"
| "parseChunk stdNumColonTZ (t, value) =
     (case numColonTZ value of
        None \<Rightarrow> None
      | Some (off, rest) \<Rightarrow> Some (t\<lparr>zone := FixedZone off\<rparr>, rest))"

fun parseChunks :: "chunk list \<Rightarrow> Time \<times> string \<Rightarrow> (Time \<times> string) option" where
  "parseChunks [] tv = Some tv"
| "parseChunks (c # cs) tv =
     (case parseChunk c tv of None \<Rightarrow> None | Some tv' \<Rightarrow> parseChunks cs tv')"

text \<open>
  \<^verbatim>\<open>time.Parse(layout, value)\<close>: every piece must fit, nothing may be left over, and the
  day must exist in its month. Fields the layout does not name keep their zero values, in
  UTC. A layout other than the three above is outside this model.
\<close>

definition time_Parse :: "string \<Rightarrow> string \<Rightarrow> error + Time" where
  "time_Parse layout value =
     (case chunks layout of
        None \<Rightarrow> Inl (ParseError ''layout outside the model'')
      | Some cs \<Rightarrow>
          (case parseChunks cs
                  (\<lparr>year = 0, month = 1, day = 1, hour = 0, minute = 0, second = 0,
                    nanosecond = 0, zone = UTC\<rparr>, value) of
             None \<Rightarrow> Inl (ParseError ''cannot parse'')
           | Some (t, rest) \<Rightarrow>
               if rest \<noteq> [] then Inl (ParseError ''extra text'')
               else if day t < 1 \<or> daysIn (month t) (year t) < day t
                 then Inl (ParseError ''day out of range'')
               else Inr t))"

section \<open>The record types of \<^verbatim>\<open>sitemap_types.go\<close>\<close>

record Image =
  ImageLocation :: string
  ImageTitle :: string

record Publication =
  Name :: string
  Language :: string

record News =
  Publication :: Publication
  PublicationDate :: string
  ParsedPublicationDate :: "Time option"
  Title :: string
  Keywords :: string

text \<open>
  \<^verbatim>\<open>Priority\<close> is a \<^verbatim>\<open>float32\<close>; the model keeps the real number it denotes (the
  default \<^verbatim>\<open>0.5\<close> is exact in binary).
\<close>

record sitemapEntry =
  Location :: string
  LastModified :: string
  ParsedLastModified :: "Time option"
  ChangeFrequency :: string
  Priority :: real
  Images :: "Image list"
  News :: "News option"

text \<open>
  The index entry has the same three field names in Go; the model marks them with a
  leading \<open>Index\<close>, as a record's fields are constants of the theory.
\<close>

record sitemapIndexEntry =
  IndexLocation :: string
  IndexLastModified :: string
  IndexParsedLastModified :: "Time option"

text \<open>The change frequency constants (\<^verbatim>\<open>Frequency\<close> is an alias of \<^verbatim>\<open>string\<close>).\<close>

definition Always :: string where
  "Always = ''always''"







definition newSitemapEntry :: sitemapEntry where
  "newSitemapEntry =
     \<lparr>Location = [], LastModified = [], ParsedLastModified = None, ChangeFrequency = Always,
      Priority = 0.5, Images = [], News = None\<rparr>"

definition newSitemapIndexEntry :: sitemapIndexEntry where
  "newSitemapIndexEntry =
     \<lparr>IndexLocation = [], IndexLastModified = [], IndexParsedLastModified = None\<rparr>"

subsection \<open>\<^verbatim>\<open>parseDateTime\<close>\<close>

text \<open>
  \<^verbatim>\<open>parseDateTime\<close> with the library's \<^verbatim>\<open>time.Parse\<close> as its first argument
  \<open>parse\<close>, so that what is proved of the order of the attempts holds of any behaviour of
  the library. A nil result is \<open>None\<close>.
\<close>

definition parseDateTime :: "(string \<Rightarrow> string \<Rightarrow> error + Time) \<Rightarrow> string \<Rightarrow> Time option" where
  "parseDateTime parse value =
     (if value = [] then None
      else
        (case parse RFC3339 value of
           Inr t \<Rightarrow> Some t
         | Inl err \<Rightarrow>
             (case parse layoutMinutes value of
                Inr t \<Rightarrow> Some t
              | Inl err \<Rightarrow>
                  (case parse layoutDate value of
                     Inr t \<Rightarrow> Some t
                   | Inl err \<Rightarrow> None))))"

subsection \<open>The accessors\<close>


definition GetImages :: "sitemapEntry \<Rightarrow> Image list" where
  "GetImages e = Images e"

definition GetLastModified ::
  "(string \<Rightarrow> string \<Rightarrow> error + Time) \<Rightarrow> sitemapEntry \<Rightarrow> Time option \<times> sitemapEntry" where
  "GetLastModified parse e =
     (let e' = (if ParsedLastModified e = None \<and> LastModified e \<noteq> []
                then e\<lparr>ParsedLastModified := parseDateTime parse (LastModified e)\<rparr>
                else e)
      in (ParsedLastModified e', e'))"

definition GetChangeFrequency :: "sitemapEntry \<Rightarrow> string" where
  "GetChangeFrequency e = ChangeFrequency e"

definition GetPriority :: "sitemapEntry \<Rightarrow> real" where
  "GetPriority e = Priority e"

definition GetNews :: "sitemapEntry \<Rightarrow> News option" where
  "GetNews e = News e"


definition IndexGetLocation :: "sitemapIndexEntry \<Rightarrow> string" where
  "IndexGetLocation e = IndexLocation e"

definition IndexGetLastModified ::
  "(string \<Rightarrow> string \<Rightarrow> error + Time) \<Rightarrow> sitemapIndexEntry
     \<Rightarrow> Time option \<times> sitemapIndexEntry" where
  "IndexGetLastModified parse e =
     (let e' = (if IndexParsedLastModified e = None \<and> IndexLastModified e \<noteq> []
                then e\<lparr>IndexParsedLastModified := parseDateTime parse (IndexLastModified e)\<rparr>
                else e)
      in (IndexParsedLastModified e', e'))"

section \<open>XML: tokens, elements and the binding of elements to records\<close>

text \<open>
  The tokens of \<^verbatim>\<open>encoding/xml\<close> that the tokenizer hands out, with an element's name
  reduced to its local part (the struct tags of this package name no namespace, so the
  library compares local names only). \<open>Malformed\<close> stands for a place in the input where
  the tokenizer cannot form a token, such as an unterminated tag.
\<close>

type_synonym attrs = "(string \<times> string) list"

datatype token =
    StartElement string attrs | EndElement string | CharData string | Comment string
  | ProcInst string string | Malformed

text \<open>
  The content of a document as trees: an element with its attributes and children,
  character data, a comment, a processing instruction.
\<close>

datatype node =
    Element string attrs "node list" | Text string | Remark string | Instruction string string

fun tokens_of :: "node \<Rightarrow> token list" where
  "tokens_of (Element n a kids) = StartElement n a # concat (map tokens_of kids) @ [EndElement n]"
| "tokens_of (Text s) = [CharData s]"
| "tokens_of (Remark s) = [Comment s]"
| "tokens_of (Instruction t s) = [ProcInst t s]"

definition document :: "node list \<Rightarrow> token list" where
  "document ns = concat (map tokens_of ns)"

text \<open>The names of the child elements, in order.\<close>

fun child_names :: "node list \<Rightarrow> string list" where
  "child_names [] = []"
| "child_names (Element n a kids # ns) = n # child_names ns"
| "child_names (x # ns) = child_names ns"

text \<open>
  The character data of an element, as the library stores it into a field of type string:
  the text directly inside the element, without the text of nested elements.
\<close>

fun chardata :: "node list \<Rightarrow> string" where
  "chardata [] = []"
| "chardata (Text s # ns) = s @ chardata ns"
| "chardata (x # ns) = chardata ns"

subsection \<open>Decoding an element into a record\<close>

text \<open>
  What \<^verbatim>\<open>xml.Decoder.DecodeElement\<close> stores into a record of this package is fixed by the
  struct tags in \<^verbatim>\<open>sitemap_types.go\<close>: a child element whose name a tag gives is
  decoded into that field, every other child is skipped, and a field no child names keeps
  the value it had. A later child of the same name overwrites a string or a number and is
  appended to a slice. Only the tagged fields are bound: a child of any other name, the
  names of the two untagged cache fields \<^verbatim>\<open>ParsedLastModified\<close> and
  \<^verbatim>\<open>ParsedPublicationDate\<close> included, is skipped (section 4.3 of the specification).

  The conversion of the text of \<^verbatim>\<open>priority\<close> to a \<^verbatim>\<open>float32\<close> is the library's
  (\<^verbatim>\<open>strconv.ParseFloat\<close>) and is the parameter \<open>ParseFloat\<close> throughout. It is
  taken as total: what the library does with a text that is no number is not modelled.
\<close>

fun unmarshal_Image :: "node list \<Rightarrow> Image \<Rightarrow> Image" where
  "unmarshal_Image [] i = i"
| "unmarshal_Image (Element n a kids # ns) i =
     unmarshal_Image ns
       (if n = ''loc'' then i\<lparr>ImageLocation := chardata kids\<rparr>
        else if n = ''title'' then i\<lparr>ImageTitle := chardata kids\<rparr>
        else i)"
| "unmarshal_Image (x # ns) i = unmarshal_Image ns i"

fun unmarshal_Publication :: "node list \<Rightarrow> Publication \<Rightarrow> Publication" where
  "unmarshal_Publication [] p = p"
| "unmarshal_Publication (Element n a kids # ns) p =
     unmarshal_Publication ns
       (if n = ''name'' then p\<lparr>Name := chardata kids\<rparr>
        else if n = ''language'' then p\<lparr>Language := chardata kids\<rparr>
        else p)"
| "unmarshal_Publication (x # ns) p = unmarshal_Publication ns p"

fun unmarshal_News :: "node list \<Rightarrow> News \<Rightarrow> News" where
  "unmarshal_News [] w = w"
| "unmarshal_News (Element n a kids # ns) w =
     unmarshal_News ns
       (if n = ''publication'' then w\<lparr>Publication := unmarshal_Publication kids (Publication w)\<rparr>
        else if n = ''publication_date'' then w\<lparr>PublicationDate := chardata kids\<rparr>
        else if n = ''title'' then w\<lparr>Title := chardata kids\<rparr>
        else if n = ''keywords'' then w\<lparr>Keywords := chardata kids\<rparr>
        else w)"
| "unmarshal_News (x # ns) w = unmarshal_News ns w"

text \<open>The zero values of the two structs the decoder allocates.\<close>

definition zeroImage :: Image where
  "zeroImage = \<lparr>ImageLocation = [], ImageTitle = []\<rparr>"

definition zeroNews :: News where
  "zeroNews =
     \<lparr>Publication = \<lparr>Name = [], Language = []\<rparr>, PublicationDate = [],
      ParsedPublicationDate = None, Title = [], Keywords = []\<rparr>"

fun unmarshal_sitemapEntry :: "(string \<Rightarrow> real) \<Rightarrow> node list \<Rightarrow> sitemapEntry \<Rightarrow> sitemapEntry" where
  "unmarshal_sitemapEntry ParseFloat [] e = e"
| "unmarshal_sitemapEntry ParseFloat (Element n a kids # ns) e =
     unmarshal_sitemapEntry ParseFloat ns
       (if n = ''loc'' then e\<lparr>Location := chardata kids\<rparr>
        else if n = ''lastmod'' then e\<lparr>LastModified := chardata kids\<rparr>
        else if n = ''changefreq'' then e\<lparr>ChangeFrequency := chardata kids\<rparr>
        else if n = ''priority'' then e\<lparr>Priority := ParseFloat (chardata kids)\<rparr>
        else if n = ''image'' then e\<lparr>Images := Images e @ [unmarshal_Image kids zeroImage]\<rparr>
        else if n = ''news'' then
          e\<lparr>News := Some (unmarshal_News kids (case News e of None \<Rightarrow> zeroNews | Some w \<Rightarrow> w))\<rparr>
        else e)"
| "unmarshal_sitemapEntry ParseFloat (x # ns) e = unmarshal_sitemapEntry ParseFloat ns e"

fun unmarshal_sitemapIndexEntry :: "node list \<Rightarrow> sitemapIndexEntry \<Rightarrow> sitemapIndexEntry" where
  "unmarshal_sitemapIndexEntry [] e = e"
| "unmarshal_sitemapIndexEntry (Element n a kids # ns) e =
     unmarshal_sitemapIndexEntry ns
       (if n = ''loc'' then e\<lparr>IndexLocation := chardata kids\<rparr>
        else if n = ''lastmod'' then e\<lparr>IndexLastModified := chardata kids\<rparr>
        else e)"
| "unmarshal_sitemapIndexEntry (x # ns) e = unmarshal_sitemapIndexEntry ns e"

section \<open>The decoder and the decode loop\<close>

subsection \<open>\<^verbatim>\<open>xml.Decoder\<close>\<close>

text \<open>
  The decoder is a forward-only cursor: the tokens not yet read and the names of the
  elements that are open, innermost first. The reader given to \<^verbatim>\<open>xml.NewDecoder\<close> is
  modelled by the sequence of tokens its bytes lex to.
\<close>

record Decoder =
  input :: "token list"
  stack :: "string list"

definition NewDecoder :: "token list \<Rightarrow> Decoder" where
  "NewDecoder reader = \<lparr>input = reader, stack = []\<rparr>"

text \<open>
  \<^verbatim>\<open>Decoder.Token\<close>: the next token, or \<^verbatim>\<open>io.EOF\<close> at the end of a stream with no
  element open, or a syntax error: at a malformed place, at an end tag that closes no
  element or another element than the innermost open one, and at the end of the stream
  inside an open element.
\<close>

definition Token :: "Decoder \<Rightarrow> (error + token) \<times> Decoder" where
  "Token d =
     (case input d of
        [] \<Rightarrow>
          (if stack d = [] then (Inl EOF, d) else (Inl (SyntaxError ''unexpected EOF''), d))
      | t # ts \<Rightarrow>
          (case t of
             StartElement n a \<Rightarrow> (Inr t, \<lparr>input = ts, stack = n # stack d\<rparr>)
           | EndElement n \<Rightarrow>
               (case stack d of
                  [] \<Rightarrow> (Inl (SyntaxError ''unexpected end element''), d\<lparr>input := ts\<rparr>)
                | m # up \<Rightarrow>
                    if m = n then (Inr t, \<lparr>input = ts, stack = up\<rparr>)
                    else (Inl (SyntaxError ''element closed by another name''), d\<lparr>input := ts\<rparr>))
           | Malformed \<Rightarrow> (Inl (SyntaxError ''malformed''), d\<lparr>input := ts\<rparr>)
           | _ \<Rightarrow> (Inr t, d\<lparr>input := ts\<rparr>)))"

text \<open>
  Reading one element to its end tag, the start tag being read already: \<open>(m, a, kids)\<close> is
  the innermost open element with the children read so far, latest first, and \<open>up\<close> the
  open elements around it, up to the element the reading started at. The result is the
  children of that element and the tokens after its end tag.
\<close>

fun readElement ::
  "string \<times> attrs \<times> node list \<Rightarrow> (string \<times> attrs \<times> node list) list \<Rightarrow> token list
     \<Rightarrow> error + (node list \<times> token list)" where
  "readElement (m, a, kids) up [] = Inl (SyntaxError ''unexpected EOF'')"
| "readElement (m, a, kids) up (StartElement n b # ts) =
     readElement (n, b, []) ((m, a, kids) # up) ts"
| "readElement (m, a, kids) up (EndElement n # ts) =
     (if m \<noteq> n then Inl (SyntaxError ''element closed by another name'')
      else
        (case up of
           [] \<Rightarrow> Inr (rev kids, ts)
         | (m', a', kids') # up' \<Rightarrow>
             readElement (m', a', Element m a (rev kids) # kids') up' ts))"
| "readElement (m, a, kids) up (CharData s # ts) = readElement (m, a, Text s # kids) up ts"
| "readElement (m, a, kids) up (Comment s # ts) = readElement (m, a, Remark s # kids) up ts"
| "readElement (m, a, kids) up (ProcInst t s # ts) =
     readElement (m, a, Instruction t s # kids) up ts"
| "readElement (m, a, kids) up (Malformed # ts) = Inl (SyntaxError ''malformed'')"

text \<open>
  \<^verbatim>\<open>Decoder.DecodeElement(v, start)\<close>, called when \<^verbatim>\<open>Token\<close> has just returned the
  start tag \<open>start\<close>: it reads the element to its end tag and stores the children into
  \<open>v\<close> by the binding \<open>unmarshal\<close> of the type of \<open>v\<close>; on an error nothing is
  returned. The element is closed afterwards.
\<close>

definition DecodeElement ::
  "Decoder \<Rightarrow> (node list \<Rightarrow> 'r \<Rightarrow> 'r) \<Rightarrow> 'r \<Rightarrow> string \<times> attrs \<Rightarrow> (error + 'r) \<times> Decoder" where
  "DecodeElement d unmarshal v start =
     (case readElement (fst start, snd start, []) [] (input d) of
        Inl err \<Rightarrow> (Inl err, d)
      | Inr (kids, rest) \<Rightarrow> (Inr (unmarshal kids v), \<lparr>input = rest, stack = tl (stack d)\<rparr>))"

subsection \<open>The consumer and what a run leaves behind\<close>

text \<open>
  A consumer is a Go closure: a function of its own state and the record, returning nil or
  an error. A run threads the consumer's state and keeps the list of the consumer's
  invocations, each with the record passed and the error returned.
\<close>

record ('r, 's) world =
  calls :: "('r \<times> error option) list"
  state :: 's

definition invoke ::
  "('s \<Rightarrow> 'r \<Rightarrow> error option \<times> 's) \<Rightarrow> 'r \<Rightarrow> ('r, 's) world \<Rightarrow> error option \<times> ('r, 's) world" where
  "invoke consume r w =
     (case consume (state w) r of
        (err, s') \<Rightarrow> (err, \<lparr>calls = calls w @ [(r, err)], state = s'\<rparr>))"

subsection \<open>\<^verbatim>\<open>entryParser\<close>, \<^verbatim>\<open>indexEntryParser\<close> and \<^verbatim>\<open>parseLoop\<close>\<close>

text \<open>
  Modelled from the spec: \<^verbatim>\<open>entryParser\<close>, called by \<^verbatim>\<open>Parse\<close> with the decoder,
  a start tag and the consumer, is defined in a file that is not among the sources. By
  sections 4.2 to 4.4 of the specification the handler acts on a record-start tag
  (\<^verbatim>\<open>url\<close>) only: it creates a fresh record, consumes the whole element into it, and
  passes the record to the consumer; a structural failure while the element is read is
  returned and no record is passed on; what the consumer returns is returned as it is.
\<close>

definition entryParser ::
  "(string \<Rightarrow> real) \<Rightarrow> Decoder \<Rightarrow> string \<times> attrs \<Rightarrow> ('s \<Rightarrow> sitemapEntry \<Rightarrow> error option \<times> 's)
     \<Rightarrow> (sitemapEntry, 's) world \<Rightarrow> error option \<times> Decoder \<times> (sitemapEntry, 's) world" where
  "entryParser ParseFloat decoder se consume w =
     (if fst se = ''url'' then
        (case DecodeElement decoder (unmarshal_sitemapEntry ParseFloat) newSitemapEntry se of
           (Inl decodeError, d) \<Rightarrow> (Some decodeError, d, w)
         | (Inr entry, d) \<Rightarrow>
             (case invoke consume entry w of (consumerError, w') \<Rightarrow> (consumerError, d, w')))
      else (None, decoder, w))"

text \<open>
  Modelled from the spec: \<^verbatim>\<open>indexEntryParser\<close> is missing from the sources like
  \<^verbatim>\<open>entryParser\<close>; by section 4.3 it is the same handler for the record-start tag
  \<^verbatim>\<open>sitemap\<close> and the index entry.
\<close>

definition indexEntryParser ::
  "Decoder \<Rightarrow> string \<times> attrs \<Rightarrow> ('s \<Rightarrow> sitemapIndexEntry \<Rightarrow> error option \<times> 's)
     \<Rightarrow> (sitemapIndexEntry, 's) world
     \<Rightarrow> error option \<times> Decoder \<times> (sitemapIndexEntry, 's) world" where
  "indexEntryParser decoder se consume w =
     (if fst se = ''sitemap'' then
        (case DecodeElement decoder unmarshal_sitemapIndexEntry newSitemapIndexEntry se of
           (Inl decodeError, d) \<Rightarrow> (Some decodeError, d, w)
         | (Inr entry, d) \<Rightarrow>
             (case invoke consume entry w of (consumerError, w') \<Rightarrow> (consumerError, d, w')))
      else (None, decoder, w))"

text \<open>
  Modelled from the spec: \<^verbatim>\<open>parseLoop\<close>, called by \<^verbatim>\<open>Parse\<close> and
  \<^verbatim>\<open>ParseIndex\<close> with the reader and a handler, is defined in a file that is not among
  the sources. By section 4.2 of the specification the loop reads token after token; the
  end of the stream with no error is success; a failure of the tokenizer is returned; the
  handler is given each start tag with the decoder placed just after it, and an error of
  the handler ends the loop and is returned as it is; every other token is passed over.
  The loop runs as long as the handler leaves tokens to read, so its result is an option:
  \<open>None\<close> would be a run that never returns.
\<close>

partial_function (option) parseLoop ::
  "Decoder \<Rightarrow> (Decoder \<Rightarrow> string \<times> attrs \<Rightarrow> 'w \<Rightarrow> error option \<times> Decoder \<times> 'w) \<Rightarrow> 'w
     \<Rightarrow> (error option \<times> 'w) option" where
  "parseLoop decoder parser w =
     (case Token decoder of
        (Inl tokenError, d) \<Rightarrow>
          (if tokenError = EOF then Some (None, w) else Some (Some tokenError, w))
      | (Inr t, d) \<Rightarrow>
          (case t of
             StartElement n a \<Rightarrow>
               (case parser d (n, a) w of
                  (Some parserError, d', w') \<Rightarrow> Some (Some parserError, w')
                | (None, d', w') \<Rightarrow> parseLoop d' parser w')
           | _ \<Rightarrow> parseLoop d parser w))"

subsection \<open>\<^verbatim>\<open>Parse\<close> and \<^verbatim>\<open>ParseIndex\<close>\<close>

definition Parse ::
  "(string \<Rightarrow> real) \<Rightarrow> token list \<Rightarrow> ('s \<Rightarrow> sitemapEntry \<Rightarrow> error option \<times> 's)
     \<Rightarrow> (sitemapEntry, 's) world \<Rightarrow> (error option \<times> (sitemapEntry, 's) world) option" where
  "Parse ParseFloat reader consumer w =
     parseLoop (NewDecoder reader) (\<lambda>d se. entryParser ParseFloat d se consumer) w"

definition ParseIndex ::
  "token list \<Rightarrow> ('s \<Rightarrow> sitemapIndexEntry \<Rightarrow> error option \<times> 's)
     \<Rightarrow> (sitemapIndexEntry, 's) world \<Rightarrow> (error option \<times> (sitemapIndexEntry, 's) world) option" where
  "ParseIndex reader consumer w =
     parseLoop (NewDecoder reader) (\<lambda>d se. indexEntryParser d se consumer) w"

subsection \<open>The loop as a total function, for the proofs\<close>

text \<open>
  Both handlers are one handler, for a record-start tag \<open>tag\<close> and a way \<open>build\<close> to
  make the record from the children of the element.
\<close>

definition recordParser ::
  "string \<Rightarrow> (node list \<Rightarrow> 'r) \<Rightarrow> ('s \<Rightarrow> 'r \<Rightarrow> error option \<times> 's) \<Rightarrow> Decoder \<Rightarrow> string \<times> attrs
     \<Rightarrow> ('r, 's) world \<Rightarrow> error option \<times> Decoder \<times> ('r, 's) world" where
  "recordParser tag build consume d se w =
     (if fst se = tag then
        (case readElement (fst se, snd se, []) [] (input d) of
           Inl err \<Rightarrow> (Some err, d, w)
         | Inr (kids, rest) \<Rightarrow>
             (case invoke consume (build kids) w of
                (err, w') \<Rightarrow> (err, \<lparr>input = rest, stack = tl (stack d)\<rparr>, w')))
      else (None, d, w))"

lemma readElement_shorter:
  "readElement cur up ts = Inr (kids, rest) \<Longrightarrow> length rest < length ts"
  by (induction cur up ts rule: readElement.induct) (fastforce split: if_splits list.splits)+

text \<open>
  What \<open>parseLoop\<close> computes with such a handler, by recursion on the tokens left: \<open>up\<close>
  is the decoder's stack. It is shown below to be the result of \<open>parseLoop\<close>, which
  therefore always returns.
\<close>

function loop ::
  "string \<Rightarrow> (node list \<Rightarrow> 'r) \<Rightarrow> ('s \<Rightarrow> 'r \<Rightarrow> error option \<times> 's) \<Rightarrow> string list \<Rightarrow> token list
     \<Rightarrow> ('r, 's) world \<Rightarrow> error option \<times> ('r, 's) world" where
  "loop tag build consume up [] w =
     (if up = [] then (None, w) else (Some (SyntaxError ''unexpected EOF''), w))"
| "loop tag build consume up (StartElement n a # ts) w =
     (if n = tag then
        (case readElement (n, a, []) [] ts of
           Inl err \<Rightarrow> (Some err, w)
         | Inr (kids, rest) \<Rightarrow>
             (case invoke consume (build kids) w of
                (Some err, w') \<Rightarrow> (Some err, w')
              | (None, w') \<Rightarrow> loop tag build consume up rest w'))
      else loop tag build consume (n # up) ts w)"
| "loop tag build consume up (EndElement n # ts) w =
     (case up of
        [] \<Rightarrow> (Some (SyntaxError ''unexpected end element''), w)
      | m # up' \<Rightarrow>
          if m = n then loop tag build consume up' ts w
          else (Some (SyntaxError ''element closed by another name''), w))"
| "loop tag build consume up (CharData s # ts) w = loop tag build consume up ts w"
| "loop tag build consume up (Comment s # ts) w = loop tag build consume up ts w"
| "loop tag build consume up (ProcInst t s # ts) w = loop tag build consume up ts w"
| "loop tag build consume up (Malformed # ts) w = (Some (SyntaxError ''malformed''), w)"
  by pat_completeness auto
termination
  by (relation "measure (\<lambda>(tag, build, consume, up, ts, w). length ts)")
     (auto dest: readElement_shorter)

subsection \<open>Notions for stating what the loop does\<close>

text \<open>
  The elements named \<open>tag\<close> that lie in no other element named \<open>tag\<close>, in document
  order, each as the list of its children; and the number of all elements named \<open>tag\<close>.
\<close>

fun records :: "string \<Rightarrow> node \<Rightarrow> node list list" where
  "records tag (Element n a kids) =
     (if n = tag then [kids] else concat (map (records tag) kids))"
| "records tag x = []"



text \<open>
  Passing records to the consumer one after the other, up to the first error it returns.
\<close>

fun feed ::
  "('s \<Rightarrow> 'r \<Rightarrow> error option \<times> 's) \<Rightarrow> 'r list \<Rightarrow> ('r, 's) world \<Rightarrow> error option \<times> ('r, 's) world" where
  "feed consume [] w = (None, w)"
| "feed consume (r # rs) w =
     (case invoke consume r w of
        (Some err, w') \<Rightarrow> (Some err, w')
      | (None, w') \<Rightarrow> feed consume rs w')"

text \<open>
  The structural error of a stream, if it has one: what the tokenizer reports first when
  the stream is read from start to end with the elements \<open>up\<close> open. A stream is
  well-formed when read with no element open it has none.
\<close>

fun structuralError :: "string list \<Rightarrow> token list \<Rightarrow> error option" where
  "structuralError up [] = (if up = [] then None else Some (SyntaxError ''unexpected EOF''))"
| "structuralError up (StartElement n a # ts) = structuralError (n # up) ts"
| "structuralError up (EndElement n # ts) =
     (case up of
        [] \<Rightarrow> Some (SyntaxError ''unexpected end element'')
      | m # up' \<Rightarrow>
          if m = n then structuralError up' ts
          else Some (SyntaxError ''element closed by another name''))"
| "structuralError up (Malformed # ts) = Some (SyntaxError ''malformed'')"
| "structuralError up (t # ts) = structuralError up ts"

definition wellFormed :: "token list \<Rightarrow> bool" where
  "wellFormed ts = (structuralError [] ts = None)"



section \<open>Files and the network: \<^verbatim>\<open>ParseFromFile\<close>, \<^verbatim>\<open>ParseFromSite\<close>, \<^verbatim>\<open>get\<close>\<close>

text \<open>
  What can be opened and must be closed: a file, the body of an HTTP response, and a gzip
  reader laid over such a body. A run leaves a trace of the resources it opened and the
  ones it closed, in order.
\<close>

datatype resource = File string | ResponseBody string | GzipReader string

datatype event = Opened resource | Closed resource

text \<open>
  An \<^verbatim>\<open>io.ReadCloser\<close>: the bytes it delivers and the resource its \<^verbatim>\<open>Close\<close> closes.
  Closing a \<^verbatim>\<open>gzip.Reader\<close> closes the gzip reader only, not the reader under it
  (package \<^verbatim>\<open>compress/gzip\<close>).
\<close>

record ReadCloser =
  content :: string
  handle :: resource

definition Close :: "ReadCloser \<Rightarrow> event list" where
  "Close rc = [Closed (handle rc)]"

record 'c Request =
  Context :: 'c
  Method :: string
  URL :: string
  RequestHeader :: "string \<rightharpoonup> string"

record Response =
  StatusCode :: int
  Header :: "string \<rightharpoonup> string"
  Body :: string

text \<open>\<^verbatim>\<open>Header.Get\<close>: the value of the key, the empty string when there is none.\<close>

definition Header_Get :: "(string \<rightharpoonup> string) \<Rightarrow> string \<Rightarrow> string" where
  "Header_Get h key = (case h key of None \<Rightarrow> [] | Some v \<Rightarrow> v)"

text \<open>
  The standard library and the world outside the program, as one parameter: opening a
  file for reading (an error, or the bytes of the file), making a request
  (\<^verbatim>\<open>http.NewRequestWithContext\<close>), sending it (\<^verbatim>\<open>http.DefaultClient.Do\<close>), starting a
  gzip reader on bytes (\<^verbatim>\<open>gzip.NewReader\<close>: an error, or the bytes decompressed), and the
  tokens the bytes of a reader lex to.
\<close>

record 'c Env =
  OpenFile :: "string \<Rightarrow> error + string"
  NewRequestWithContext :: "'c \<Rightarrow> string \<Rightarrow> string \<Rightarrow> error + 'c Request"
  Do :: "'c Request \<Rightarrow> error + Response"
  gzip_NewReader :: "string \<Rightarrow> error + string"
  tokenize :: "string \<Rightarrow> token list"

definition userAgent :: string where
  "userAgent =
     ''Mozilla/5.0 (Macintosh; Intel Mac OS X 10.15; rv:109.0) Gecko/20100101 Firefox/109.0''"

text \<open>The verb \<^verbatim>\<open>%d\<close> of \<^verbatim>\<open>fmt.Errorf\<close>: an integer in decimal.\<close>

function decimal :: "nat \<Rightarrow> string" where
  "decimal n =
     (if n < 10 then [''0123456789'' ! n]
      else decimal (n div 10) @ [''0123456789'' ! (n mod 10)])"
  by pat_completeness auto
termination
  by (relation "measure (\<lambda>n. n)") auto

definition formatInt :: "int \<Rightarrow> string" where
  "formatInt i = (if i < 0 then CHR ''-'' # decimal (nat (- i)) else decimal (nat i))"

text \<open>
  \<^verbatim>\<open>get\<close>, with the trace of what it opened: the body of a response is open from the
  moment \<^verbatim>\<open>Do\<close> returns the response.
\<close>

definition get :: "'c Env \<Rightarrow> 'c \<Rightarrow> string \<Rightarrow> (error + ReadCloser) \<times> event list" where
  "get env ctx url =
     (case NewRequestWithContext env ctx ''GET'' url of
        Inl err \<Rightarrow> (Inl err, [])
      | Inr req \<Rightarrow>
          (case Do env (req\<lparr>RequestHeader := (RequestHeader req)(''User-Agent'' \<mapsto> userAgent)\<rparr>) of
             Inl err \<Rightarrow> (Inl err, [])
           | Inr res \<Rightarrow>
               if StatusCode res \<ge> 400 then
                 (Inl (errorString
                    (''sitemap error due to request '' @ url @ '' with response status code ''
                       @ formatInt (StatusCode res))),
                  [Opened (ResponseBody url)])
               else if Header_Get (Header res) ''Content-Encoding'' = ''gzip'' then
                 (case gzip_NewReader env (Body res) of
                    Inl err \<Rightarrow> (Inl err, [Opened (ResponseBody url)])
                  | Inr plain \<Rightarrow>
                      (Inr \<lparr>content = plain, handle = GzipReader url\<rparr>,
                       [Opened (ResponseBody url), Opened (GzipReader url)]))
               else
                 (Inr \<lparr>content = Body res, handle = ResponseBody url\<rparr>,
                  [Opened (ResponseBody url)])))"

text \<open>
  The four wrappers. The deferred \<^verbatim>\<open>Close\<close> runs when the wrapper returns, whatever
  \<^verbatim>\<open>Parse\<close> returned. The result is the error, the consumer's state with its invocations,
  and the trace.
\<close>

definition ParseFromFile ::
  "'c Env \<Rightarrow> (string \<Rightarrow> real) \<Rightarrow> string \<Rightarrow> ('s \<Rightarrow> sitemapEntry \<Rightarrow> error option \<times> 's)
     \<Rightarrow> (sitemapEntry, 's) world
     \<Rightarrow> ((error option \<times> (sitemapEntry, 's) world) \<times> event list) option" where
  "ParseFromFile env ParseFloat sitemapPath consumer w =
     (case OpenFile env sitemapPath of
        Inl err \<Rightarrow> Some ((Some err, w), [])
      | Inr bytes \<Rightarrow>
          (let sitemapFile = \<lparr>content = bytes, handle = File sitemapPath\<rparr> in
           case Parse ParseFloat (tokenize env (content sitemapFile)) consumer w of
             None \<Rightarrow> None
           | Some r \<Rightarrow> Some (r, [Opened (File sitemapPath)] @ Close sitemapFile)))"

definition ParseFromSite ::
  "'c Env \<Rightarrow> (string \<Rightarrow> real) \<Rightarrow> 'c \<Rightarrow> string \<Rightarrow> ('s \<Rightarrow> sitemapEntry \<Rightarrow> error option \<times> 's)
     \<Rightarrow> (sitemapEntry, 's) world
     \<Rightarrow> ((error option \<times> (sitemapEntry, 's) world) \<times> event list) option" where
  "ParseFromSite env ParseFloat ctx url consumer w =
     (case get env ctx url of
        (Inl err, trace) \<Rightarrow> Some ((Some err, w), trace)
      | (Inr body, trace) \<Rightarrow>
          (case Parse ParseFloat (tokenize env (content body)) consumer w of
             None \<Rightarrow> None
           | Some r \<Rightarrow> Some (r, trace @ Close body)))"

definition ParseIndexFromFile ::
  "'c Env \<Rightarrow> string \<Rightarrow> ('s \<Rightarrow> sitemapIndexEntry \<Rightarrow> error option \<times> 's)
     \<Rightarrow> (sitemapIndexEntry, 's) world
     \<Rightarrow> ((error option \<times> (sitemapIndexEntry, 's) world) \<times> event list) option" where
  "ParseIndexFromFile env sitemapPath consumer w =
     (case OpenFile env sitemapPath of
        Inl err \<Rightarrow> Some ((Some err, w), [])
      | Inr bytes \<Rightarrow>
          (let sitemapFile = \<lparr>content = bytes, handle = File sitemapPath\<rparr> in
           case ParseIndex (tokenize env (content sitemapFile)) consumer w of
             None \<Rightarrow> None
           | Some r \<Rightarrow> Some (r, [Opened (File sitemapPath)] @ Close sitemapFile)))"

definition ParseIndexFromSite ::
  "'c Env \<Rightarrow> 'c \<Rightarrow> string \<Rightarrow> ('s \<Rightarrow> sitemapIndexEntry \<Rightarrow> error option \<times> 's)
     \<Rightarrow> (sitemapIndexEntry, 's) world
     \<Rightarrow> ((error option \<times> (sitemapIndexEntry, 's) world) \<times> event list) option" where
  "ParseIndexFromSite env ctx sitemapURL consumer w =
     (case get env ctx sitemapURL of
        (Inl err, trace) \<Rightarrow> Some ((Some err, w), trace)
      | (Inr body, trace) \<Rightarrow>
          (case ParseIndex (tokenize env (content body)) consumer w of
             None \<Rightarrow> None
           | Some r \<Rightarrow> Some (r, trace @ Close body)))"

text \<open>How often a resource was closed in a trace.\<close>

definition closings :: "resource \<Rightarrow> event list \<Rightarrow> nat" where
  "closings r evs = length (filter (\<lambda>e. e = Closed r) evs)"

subsection \<open>A server for the examples\<close>


section \<open>Properties of the date parser and the accessors\<close>

text \<open>The equations that evaluate \<open>time_Parse\<close> on a given text.\<close>

lemmas time_Parse_eval =
  time_Parse_def chunks_def RFC3339_def layoutMinutes_def layoutDate_def isDigit_def
  digitVal_def atoi_def daysIn_def fraction_def numColonTZ_def

lemma time_Parse_full: "time_Parse RFC3339 ''2015-05-07T15:04:05Z'' =
    Inr \<lparr>year = 2015, month = 5, day = 7, hour = 15, minute = 4, second = 5,
         nanosecond = 0, zone = UTC\<rparr>"
  by (simp add: time_Parse_eval)

lemma time_Parse_minutes:
  "time_Parse RFC3339 ''2015-05-07T15:04+02:00'' = Inl (ParseError ''cannot parse'')"
  "time_Parse layoutMinutes ''2015-05-07T15:04+02:00'' =
    Inr \<lparr>year = 2015, month = 5, day = 7, hour = 15, minute = 4, second = 0,
         nanosecond = 0, zone = FixedZone 7200\<rparr>"
  by (simp_all add: time_Parse_eval)

lemma time_Parse_date:
  "time_Parse RFC3339 ''2015-05-07'' = Inl (ParseError ''cannot parse'')"
  "time_Parse layoutMinutes ''2015-05-07'' = Inl (ParseError ''cannot parse'')"
  "time_Parse layoutDate ''2015-05-07'' =
    Inr \<lparr>year = 2015, month = 5, day = 7, hour = 0, minute = 0, second = 0,
         nanosecond = 0, zone = UTC\<rparr>"
  by (simp_all add: time_Parse_eval)

lemma time_Parse_garbage:
  "time_Parse RFC3339 ''not-a-date'' = Inl (ParseError ''cannot parse'')"
  "time_Parse layoutMinutes ''not-a-date'' = Inl (ParseError ''cannot parse'')"
  "time_Parse layoutDate ''not-a-date'' = Inl (ParseError ''cannot parse'')"
  by (simp_all add: time_Parse_eval)

text \<open>
  Claim C5. \<^verbatim>\<open>parseDateTime\<close> tries the full date-time with offset first, then the
  date-time with minutes and offset, then the date alone; the first layout the library
  accepts gives the result, whatever the later ones would say; when the library rejects all
  three the result is nil, and the function has no error result. The empty string gives
  nil whatever the library would answer, so no layout is tried on it. With the library's
  parser as modelled above, \<^verbatim>\<open>2015-05-07\<close> is read as midnight of 7 May 2015 in UTC.
\<close>

theorem parseDateTime_first_match_wins:
  "parseDateTime parse [] = None
   \<and> (\<forall>v t. v \<noteq> [] \<longrightarrow> parse RFC3339 v = Inr t \<longrightarrow> parseDateTime parse v = Some t)
   \<and> (\<forall>v e t. v \<noteq> [] \<longrightarrow> parse RFC3339 v = Inl e \<longrightarrow> parse layoutMinutes v = Inr t
         \<longrightarrow> parseDateTime parse v = Some t)
   \<and> (\<forall>v e e' t. v \<noteq> [] \<longrightarrow> parse RFC3339 v = Inl e \<longrightarrow> parse layoutMinutes v = Inl e'
         \<longrightarrow> parse layoutDate v = Inr t \<longrightarrow> parseDateTime parse v = Some t)
   \<and> (\<forall>v e e' e''. parse RFC3339 v = Inl e \<longrightarrow> parse layoutMinutes v = Inl e'
         \<longrightarrow> parse layoutDate v = Inl e'' \<longrightarrow> parseDateTime parse v = None)
   \<and> parseDateTime time_Parse ''2015-05-07'' =
        Some \<lparr>year = 2015, month = 5, day = 7, hour = 0, minute = 0, second = 0,
              nanosecond = 0, zone = UTC\<rparr>"
  by (auto simp: parseDateTime_def time_Parse_date)

text \<open>
  One text for each of the four cases, with the library's parser: accepted by the first
  layout, by the second only, by the third only, by none.
\<close>

theorem parseDateTime_first_match_wins_witness:
  "time_Parse RFC3339 ''2015-05-07T15:04:05Z'' =
     Inr \<lparr>year = 2015, month = 5, day = 7, hour = 15, minute = 4, second = 5,
          nanosecond = 0, zone = UTC\<rparr>
   \<and> parseDateTime time_Parse ''2015-05-07T15:04:05Z'' =
     Some \<lparr>year = 2015, month = 5, day = 7, hour = 15, minute = 4, second = 5,
           nanosecond = 0, zone = UTC\<rparr>
   \<and> time_Parse RFC3339 ''2015-05-07T15:04+02:00'' = Inl (ParseError ''cannot parse'')
   \<and> parseDateTime time_Parse ''2015-05-07T15:04+02:00'' =
     Some \<lparr>year = 2015, month = 5, day = 7, hour = 15, minute = 4, second = 0,
           nanosecond = 0, zone = FixedZone 7200\<rparr>
   \<and> time_Parse layoutMinutes ''2015-05-07'' = Inl (ParseError ''cannot parse'')
   \<and> parseDateTime time_Parse ''2015-05-07'' =
     Some \<lparr>year = 2015, month = 5, day = 7, hour = 0, minute = 0, second = 0,
           nanosecond = 0, zone = UTC\<rparr>
   \<and> time_Parse layoutDate ''not-a-date'' = Inl (ParseError ''cannot parse'')
   \<and> parseDateTime time_Parse ''not-a-date'' = None"
proof -
  note order = parseDateTime_first_match_wins [of time_Parse]
  have ne: "''2015-05-07T15:04:05Z'' \<noteq> []" "''2015-05-07T15:04+02:00'' \<noteq> []"
    "''2015-05-07'' \<noteq> []"
    by simp_all
  from order ne(1) time_Parse_full
  have first: "parseDateTime time_Parse ''2015-05-07T15:04:05Z'' =
     Some \<lparr>year = 2015, month = 5, day = 7, hour = 15, minute = 4, second = 5,
           nanosecond = 0, zone = UTC\<rparr>"
    by blast
  from order ne(2) time_Parse_minutes
  have second: "parseDateTime time_Parse ''2015-05-07T15:04+02:00'' =
     Some \<lparr>year = 2015, month = 5, day = 7, hour = 15, minute = 4, second = 0,
           nanosecond = 0, zone = FixedZone 7200\<rparr>"
    by blast
  from order ne(3) time_Parse_date
  have third: "parseDateTime time_Parse ''2015-05-07'' =
     Some \<lparr>year = 2015, month = 5, day = 7, hour = 0, minute = 0, second = 0,
           nanosecond = 0, zone = UTC\<rparr>"
    by blast
  from order time_Parse_garbage
  have none: "parseDateTime time_Parse ''not-a-date'' = None"
    by blast
  from first second third none time_Parse_full time_Parse_minutes time_Parse_date
    time_Parse_garbage
  show ?thesis by simp
qed





text \<open>
  Claim C6. Two calls of the last-modified accessor in a row on one record (an entry or an
  index entry) return the same value. The first call on a record whose cache is nil returns
  what \<^verbatim>\<open>parseDateTime\<close> makes of the raw string; once a call has returned a time,
  that time is stored in the record and every later call returns it without parsing (its
  result no longer depends on the parser). The accessor has no access to the stream.
\<close>

theorem GetLastModified_memoized:
  "fst (GetLastModified parse (snd (GetLastModified parse e))) = fst (GetLastModified parse e)
   \<and> (ParsedLastModified e = None \<longrightarrow>
        fst (GetLastModified parse e) = parseDateTime parse (LastModified e))
   \<and> (\<forall>t. fst (GetLastModified parse e) = Some t \<longrightarrow>
        ParsedLastModified (snd (GetLastModified parse e)) = Some t
        \<and> (\<forall>parse'. GetLastModified parse' (snd (GetLastModified parse e)) =
              (Some t, snd (GetLastModified parse e))))
   \<and> fst (IndexGetLastModified parse (snd (IndexGetLastModified parse i))) =
       fst (IndexGetLastModified parse i)
   \<and> (IndexParsedLastModified i = None \<longrightarrow>
        fst (IndexGetLastModified parse i) = parseDateTime parse (IndexLastModified i))
   \<and> (\<forall>t. fst (IndexGetLastModified parse i) = Some t \<longrightarrow>
        IndexParsedLastModified (snd (IndexGetLastModified parse i)) = Some t
        \<and> (\<forall>parse'. IndexGetLastModified parse' (snd (IndexGetLastModified parse i)) =
              (Some t, snd (IndexGetLastModified parse i))))"
proof -
  have entry_again:
    "fst (GetLastModified parse (snd (GetLastModified parse e))) = fst (GetLastModified parse e)"
    by (simp add: GetLastModified_def Let_def)
  have entry_first: "ParsedLastModified e = None \<longrightarrow>
      fst (GetLastModified parse e) = parseDateTime parse (LastModified e)"
    by (simp add: GetLastModified_def Let_def parseDateTime_def)
  have entry_cached: "\<forall>t. fst (GetLastModified parse e) = Some t \<longrightarrow>
        ParsedLastModified (snd (GetLastModified parse e)) = Some t
        \<and> (\<forall>parse'. GetLastModified parse' (snd (GetLastModified parse e)) =
              (Some t, snd (GetLastModified parse e)))"
    by (simp add: GetLastModified_def Let_def)
  have index_again:
    "fst (IndexGetLastModified parse (snd (IndexGetLastModified parse i))) =
       fst (IndexGetLastModified parse i)"
    by (simp add: IndexGetLastModified_def Let_def)
  have index_first: "IndexParsedLastModified i = None \<longrightarrow>
      fst (IndexGetLastModified parse i) = parseDateTime parse (IndexLastModified i)"
    by (simp add: IndexGetLastModified_def Let_def parseDateTime_def)
  have index_cached: "\<forall>t. fst (IndexGetLastModified parse i) = Some t \<longrightarrow>
        IndexParsedLastModified (snd (IndexGetLastModified parse i)) = Some t
        \<and> (\<forall>parse'. IndexGetLastModified parse' (snd (IndexGetLastModified parse i)) =
              (Some t, snd (IndexGetLastModified parse i)))"
    by (simp add: IndexGetLastModified_def Let_def)
  from entry_again entry_first entry_cached index_again index_first index_cached
  show ?thesis by blast
qed

lemma parseDateTime_date: "parseDateTime time_Parse ''2015-05-07'' =
     Some \<lparr>year = 2015, month = 5, day = 7, hour = 0, minute = 0, second = 0,
           nanosecond = 0, zone = UTC\<rparr>"
  by (simp add: parseDateTime_def time_Parse_date)

text \<open>
  A fresh entry and a fresh index entry with the raw date \<^verbatim>\<open>2015-05-07\<close>: the second
  call answers from the cache even with a parser that rejects everything.
\<close>

theorem GetLastModified_memoized_witness:
  "ParsedLastModified (newSitemapEntry\<lparr>LastModified := ''2015-05-07''\<rparr>) = None
   \<and> fst (GetLastModified time_Parse (newSitemapEntry\<lparr>LastModified := ''2015-05-07''\<rparr>)) =
       Some \<lparr>year = 2015, month = 5, day = 7, hour = 0, minute = 0, second = 0,
             nanosecond = 0, zone = UTC\<rparr>
   \<and> GetLastModified (\<lambda>layout value. Inl EOF)
         (snd (GetLastModified time_Parse (newSitemapEntry\<lparr>LastModified := ''2015-05-07''\<rparr>))) =
       (Some \<lparr>year = 2015, month = 5, day = 7, hour = 0, minute = 0, second = 0,
              nanosecond = 0, zone = UTC\<rparr>,
        snd (GetLastModified time_Parse (newSitemapEntry\<lparr>LastModified := ''2015-05-07''\<rparr>)))
   \<and> IndexParsedLastModified (newSitemapIndexEntry\<lparr>IndexLastModified := ''2015-05-07''\<rparr>) = None
   \<and> fst (IndexGetLastModified time_Parse
             (newSitemapIndexEntry\<lparr>IndexLastModified := ''2015-05-07''\<rparr>)) =
       Some \<lparr>year = 2015, month = 5, day = 7, hour = 0, minute = 0, second = 0,
             nanosecond = 0, zone = UTC\<rparr>
   \<and> IndexGetLastModified (\<lambda>layout value. Inl EOF)
         (snd (IndexGetLastModified time_Parse
                 (newSitemapIndexEntry\<lparr>IndexLastModified := ''2015-05-07''\<rparr>))) =
       (Some \<lparr>year = 2015, month = 5, day = 7, hour = 0, minute = 0, second = 0,
              nanosecond = 0, zone = UTC\<rparr>,
        snd (IndexGetLastModified time_Parse
               (newSitemapIndexEntry\<lparr>IndexLastModified := ''2015-05-07''\<rparr>)))"
proof -
  let ?e = "newSitemapEntry\<lparr>LastModified := ''2015-05-07''\<rparr>"
  let ?i = "newSitemapIndexEntry\<lparr>IndexLastModified := ''2015-05-07''\<rparr>"
  let ?d = "\<lparr>year = 2015, month = 5, day = 7, hour = 0, minute = 0, second = 0,
             nanosecond = 0, zone = UTC\<rparr>"
  note memo = GetLastModified_memoized [of time_Parse ?e ?i]
  have fresh: "ParsedLastModified ?e = None" "IndexParsedLastModified ?i = None"
    by (simp_all add: newSitemapEntry_def newSitemapIndexEntry_def)
  have raw: "LastModified ?e = ''2015-05-07''" "IndexLastModified ?i = ''2015-05-07''"
    by simp_all
  from memo fresh(1) raw(1) parseDateTime_date
  have e1: "fst (GetLastModified time_Parse ?e) = Some ?d"
    by simp
  from memo fresh(2) raw(2) parseDateTime_date
  have i1: "fst (IndexGetLastModified time_Parse ?i) = Some ?d"
    by simp
  from memo e1
  have e2: "GetLastModified (\<lambda>layout value. Inl EOF) (snd (GetLastModified time_Parse ?e)) =
      (Some ?d, snd (GetLastModified time_Parse ?e))"
    by blast
  from memo i1
  have i2: "IndexGetLastModified (\<lambda>layout value. Inl EOF) (snd (IndexGetLastModified time_Parse ?i)) =
      (Some ?d, snd (IndexGetLastModified time_Parse ?i))"
    by blast
  from fresh e1 e2 i1 i2 show ?thesis by blast
qed



section \<open>Properties of the binding\<close>

text \<open>
  A field keeps its value when no child element carries the field's name.
\<close>

lemma unmarshal_keeps_ChangeFrequency:
  "''changefreq'' \<notin> set (child_names kids) \<Longrightarrow>
   ChangeFrequency (unmarshal_sitemapEntry pf kids e) = ChangeFrequency e"
  by (induction pf kids e rule: unmarshal_sitemapEntry.induct) auto

lemma unmarshal_keeps_Priority:
  "''priority'' \<notin> set (child_names kids) \<Longrightarrow>
   Priority (unmarshal_sitemapEntry pf kids e) = Priority e"
  by (induction pf kids e rule: unmarshal_sitemapEntry.induct) auto



text \<open>
  Claim C4. The record decoded from a \<^verbatim>\<open>url\<close> element into a fresh
  \<^verbatim>\<open>newSitemapEntry()\<close>: when no child is named \<^verbatim>\<open>changefreq\<close>,
  \<^verbatim>\<open>GetChangeFrequency\<close> returns \<^verbatim>\<open>always\<close>; when no child is named
  \<^verbatim>\<open>priority\<close>, \<^verbatim>\<open>GetPriority\<close> returns 0.5.
\<close>

theorem defaults_when_absent:
  "(''changefreq'' \<notin> set (child_names kids) \<longrightarrow>
      GetChangeFrequency (unmarshal_sitemapEntry pf kids newSitemapEntry) = ''always'')
   \<and> (''priority'' \<notin> set (child_names kids) \<longrightarrow>
      GetPriority (unmarshal_sitemapEntry pf kids newSitemapEntry) = 0.5)"
  by (simp add: GetChangeFrequency_def GetPriority_def unmarshal_keeps_ChangeFrequency
      unmarshal_keeps_Priority newSitemapEntry_def Always_def)

text \<open>
  A \<^verbatim>\<open>url\<close> element with a location and a date only.
\<close>

theorem defaults_when_absent_witness:
  "''changefreq'' \<notin> set (child_names
       [Element ''loc'' [] [Text ''http://example.com/''], Text '' '',
        Element ''lastmod'' [] [Text ''2015-05-07'']])
   \<and> GetChangeFrequency (unmarshal_sitemapEntry (\<lambda>s. 0)
       [Element ''loc'' [] [Text ''http://example.com/''], Text '' '',
        Element ''lastmod'' [] [Text ''2015-05-07'']] newSitemapEntry) = ''always''
   \<and> ''priority'' \<notin> set (child_names
       [Element ''loc'' [] [Text ''http://example.com/''], Text '' '',
        Element ''lastmod'' [] [Text ''2015-05-07'']])
   \<and> GetPriority (unmarshal_sitemapEntry (\<lambda>s. 0)
       [Element ''loc'' [] [Text ''http://example.com/''], Text '' '',
        Element ''lastmod'' [] [Text ''2015-05-07'']] newSitemapEntry) = 0.5"
proof -
  let ?kids = "[Element ''loc'' [] [Text ''http://example.com/''], Text '' '',
        Element ''lastmod'' [] [Text ''2015-05-07'']]"
  have a: "''changefreq'' \<notin> set (child_names ?kids)"
    and b: "''priority'' \<notin> set (child_names ?kids)"
    by simp_all
  from defaults_when_absent [of ?kids "\<lambda>s. 0"] a b show ?thesis
    by blast
qed



section \<open>The loop: its steps and its result\<close>

lemma parseLoop_nil:
  "parseLoop \<lparr>input = [], stack = up\<rparr> p w =
   Some (if up = [] then (None, w) else (Some (SyntaxError ''unexpected EOF''), w))"
  by (subst parseLoop.simps) (simp add: Token_def)

lemma parseLoop_start:
  "parseLoop \<lparr>input = StartElement n a # ts, stack = up\<rparr> p w =
   (case p \<lparr>input = ts, stack = n # up\<rparr> (n, a) w of
      (Some err, d', w') \<Rightarrow> Some (Some err, w')
    | (None, d', w') \<Rightarrow> parseLoop d' p w')"
  by (subst parseLoop.simps) (simp add: Token_def)

lemma parseLoop_end:
  "parseLoop \<lparr>input = EndElement n # ts, stack = up\<rparr> p w =
   (case up of
      [] \<Rightarrow> Some (Some (SyntaxError ''unexpected end element''), w)
    | m # up' \<Rightarrow>
        if m = n then parseLoop \<lparr>input = ts, stack = up'\<rparr> p w
        else Some (Some (SyntaxError ''element closed by another name''), w))"
  by (subst parseLoop.simps) (simp add: Token_def split: list.splits)

lemma parseLoop_other:
  "parseLoop \<lparr>input = CharData s # ts, stack = up\<rparr> p w = parseLoop \<lparr>input = ts, stack = up\<rparr> p w"
  "parseLoop \<lparr>input = Comment s # ts, stack = up\<rparr> p w = parseLoop \<lparr>input = ts, stack = up\<rparr> p w"
  "parseLoop \<lparr>input = ProcInst t s # ts, stack = up\<rparr> p w = parseLoop \<lparr>input = ts, stack = up\<rparr> p w"
  by (subst parseLoop.simps, simp add: Token_def)+

lemma parseLoop_malformed:
  "parseLoop \<lparr>input = Malformed # ts, stack = up\<rparr> p w = Some (Some (SyntaxError ''malformed''), w)"
  by (subst parseLoop.simps) (simp add: Token_def)

lemma parseLoop_is_loop:
  "parseLoop \<lparr>input = ts, stack = up\<rparr> (recordParser tag build consume) w =
   Some (loop tag build consume up ts w)"
proof (induction tag build consume up ts w rule: loop.induct)
  case (1 tag build consume up w)
  show ?case
    by (simp add: parseLoop_nil)
next
  case (2 tag build consume up n a ts w)
  let ?p = "recordParser tag build consume"
  show ?case
  proof (cases "n = tag")
    case False
    then have "parseLoop \<lparr>input = StartElement n a # ts, stack = up\<rparr> ?p w =
        parseLoop \<lparr>input = ts, stack = n # up\<rparr> ?p w"
      by (simp add: parseLoop_start recordParser_def)
    with False 2(2) show ?thesis by simp
  next
    case True
    show ?thesis
    proof (cases "readElement (n, a, []) [] ts")
      case (Inl err)
      with True show ?thesis
        by (simp add: parseLoop_start recordParser_def)
    next
      case (Inr r)
      obtain kids rest where r: "r = (kids, rest)" by (cases r)
      obtain e w' where i: "invoke consume (build kids) w = (e, w')"
        by (cases "invoke consume (build kids) w")
      show ?thesis
      proof (cases e)
        case None
        from True Inr r i None
        have "parseLoop \<lparr>input = StartElement n a # ts, stack = up\<rparr> ?p w =
            parseLoop \<lparr>input = rest, stack = up\<rparr> ?p w'"
          by (simp add: parseLoop_start recordParser_def)
        moreover from 2(1) True Inr r i None
        have "parseLoop \<lparr>input = rest, stack = up\<rparr> ?p w' = Some (loop tag build consume up rest w')"
          by simp
        ultimately show ?thesis using True Inr r i None by simp
      next
        case (Some err)
        with True Inr r i show ?thesis
          by (simp add: parseLoop_start recordParser_def)
      qed
    qed
  qed
next
  case (3 tag build consume up n ts w)
  then show ?case
    by (simp add: parseLoop_end split: list.splits)
next
  case (4 tag build consume up s ts w)
  then show ?case
    by (simp add: parseLoop_other)
next
  case (5 tag build consume up s ts w)
  then show ?case
    by (simp add: parseLoop_other)
next
  case (6 tag build consume up t s ts w)
  then show ?case
    by (simp add: parseLoop_other)
next
  case (7 tag build consume up ts w)
  show ?case
    by (simp add: parseLoop_malformed)
qed

lemma entryParser_is_recordParser:
  "(\<lambda>d se. entryParser pf d se consume) =
   recordParser ''url'' (\<lambda>kids. unmarshal_sitemapEntry pf kids newSitemapEntry) consume"
  by (intro ext) (simp add: entryParser_def recordParser_def DecodeElement_def split: sum.splits prod.splits)

lemma indexEntryParser_is_recordParser:
  "(\<lambda>d se. indexEntryParser d se consume) =
   recordParser ''sitemap'' (\<lambda>kids. unmarshal_sitemapIndexEntry kids newSitemapIndexEntry) consume"
  by (intro ext) (simp add: indexEntryParser_def recordParser_def DecodeElement_def split: sum.splits prod.splits)

lemma Parse_is_loop:
  "Parse pf reader consume w =
   Some (loop ''url'' (\<lambda>kids. unmarshal_sitemapEntry pf kids newSitemapEntry) consume [] reader w)"
  by (simp add: Parse_def NewDecoder_def entryParser_is_recordParser parseLoop_is_loop)

lemma ParseIndex_is_loop:
  "ParseIndex reader consume w =
   Some (loop ''sitemap'' (\<lambda>kids. unmarshal_sitemapIndexEntry kids newSitemapIndexEntry) consume [] reader w)"
  by (simp add: ParseIndex_def NewDecoder_def indexEntryParser_is_recordParser parseLoop_is_loop)
subsection \<open>Reading an element\<close>

lemma document_Cons: "document (x # ns) = tokens_of x @ document ns"
  by (simp add: document_def)


lemma document_Nil: "document [] = []"
  by (simp add: document_def)

lemma readElement_tokens_of:
  "readElement (m, a, acc) up (tokens_of x @ ts) = readElement (m, a, x # acc) up ts"
proof (induction x arbitrary: m a acc up ts)
  case (Element n b kids)
  have kids: "readElement (m', a', acc') up' (document ks @ ts') =
      readElement (m', a', rev ks @ acc') up' ts'"
    if "set ks \<subseteq> set kids" for ks m' a' acc' up' ts'
    using that
  proof (induction ks arbitrary: acc')
    case Nil
    show ?case by (simp add: document_Nil)
  next
    case (Cons k ks)
    then have "k \<in> set kids" and "set ks \<subseteq> set kids" by simp_all
    with Cons.IH [of "k # acc'"] Element.IH [of k m' a' acc' up' "document ks @ ts'"]
    show ?case by (simp add: document_Cons)
  qed
  have "readElement (m, a, acc) up (tokens_of (Element n b kids) @ ts) =
      readElement (n, b, []) ((m, a, acc) # up) (document kids @ EndElement n # ts)"
    by (simp add: document_def)
  also have "\<dots> = readElement (n, b, rev kids) ((m, a, acc) # up) (EndElement n # ts)"
    using kids [of kids n b "[]" "(m, a, acc) # up" "EndElement n # ts"] by simp
  also have "\<dots> = readElement (m, a, Element n b kids # acc) up ts"
    by simp
  finally show ?case .
qed simp_all

lemma readElement_document:
  "readElement (m, a, acc) up (document ns @ ts) = readElement (m, a, rev ns @ acc) up ts"
  by (induction ns arbitrary: acc) (simp_all add: document_Nil document_Cons readElement_tokens_of)

lemma readElement_whole:
  "readElement (n, a, []) [] (document kids @ EndElement n # ts) = Inr (kids, ts)"
  by (simp add: readElement_document)

subsection \<open>The loop on a well-formed stream\<close>

lemma feed_append:
  "feed consume (xs @ ys) w =
   (case feed consume xs w of
      (Some err, w') \<Rightarrow> (Some err, w')
    | (None, w') \<Rightarrow> feed consume ys w')"
  by (induction xs arbitrary: w) (auto split: prod.splits option.splits)

lemma loop_tokens_of:
  "loop tag build consume up (tokens_of x @ ts) w =
   (case feed consume (map build (records tag x)) w of
      (Some err, w') \<Rightarrow> (Some err, w')
    | (None, w') \<Rightarrow> loop tag build consume up ts w')"
proof (induction x arbitrary: up ts w)
  case (Element n a kids)
  show ?case
  proof (cases "n = tag")
    case True
    then show ?thesis
      by (simp add: readElement_whole [unfolded document_def] split: prod.splits option.splits)
  next
    case False
    have kids: "loop tag build consume up' (document ks @ ts') w' =
        (case feed consume (map build (concat (map (records tag) ks))) w' of
           (Some err, w'') \<Rightarrow> (Some err, w'')
         | (None, w'') \<Rightarrow> loop tag build consume up' ts' w'')"
      if "set ks \<subseteq> set kids" for ks up' ts' w'
      using that
    proof (induction ks arbitrary: w')
      case Nil
      show ?case by (simp add: document_Nil)
    next
      case (Cons k ks)
      then have "k \<in> set kids" and "set ks \<subseteq> set kids" by simp_all
      with Cons.IH Element.IH [of k up' "document ks @ ts'"]
      show ?case
        by (simp add: document_Cons feed_append split: prod.splits option.splits)
    qed
    have "loop tag build consume up (tokens_of (Element n a kids) @ ts) w =
        loop tag build consume (n # up) (document kids @ EndElement n # ts) w"
      using False by (simp add: document_def)
    also have "\<dots> =
        (case feed consume (map build (concat (map (records tag) kids))) w of
           (Some err, w'') \<Rightarrow> (Some err, w'')
         | (None, w'') \<Rightarrow> loop tag build consume (n # up) (EndElement n # ts) w'')"
      using kids [of kids "n # up" "EndElement n # ts" w] by simp
    finally show ?thesis
      using False by (simp split: prod.splits option.splits)
  qed
qed simp_all

lemma loop_document:
  "loop tag build consume up (document ns @ ts) w =
   (case feed consume (map build (concat (map (records tag) ns))) w of
      (Some err, w') \<Rightarrow> (Some err, w')
    | (None, w') \<Rightarrow> loop tag build consume up ts w')"
proof (induction ns arbitrary: w)
  case Nil
  show ?case by (simp add: document_Nil)
next
  case (Cons x ns)
  then show ?case
    by (simp add: document_Cons loop_tokens_of feed_append split: prod.splits option.splits)
qed

lemma loop_whole_document:
  "loop tag build consume [] (document ns) w =
   feed consume (map build (concat (map (records tag) ns))) w"
  using loop_document [of tag build consume "[]" ns "[]" w]
  by (simp split: prod.splits option.splits)




subsection \<open>The invocations of a run\<close>

lemma invoke_calls:
  "invoke consume r w = (err, w') \<Longrightarrow> calls w' = calls w @ [(r, err)]"
  by (auto simp: invoke_def split: prod.splits)

lemma loop_calls:
  "loop tag build consume up ts w = (err, w') \<Longrightarrow>
   \<exists>new. calls w' = calls w @ new
     \<and> (\<forall>i e. i < length new \<longrightarrow> snd (new ! i) = Some e \<longrightarrow> length new = Suc i \<and> err = Some e)"
proof (induction tag build consume up ts w rule: loop.induct)
  case (2 tag build consume up n a ts w)
  show ?case
  proof (cases "n = tag")
    case False
    with 2 show ?thesis by simp
  next
    case True
    show ?thesis
    proof (cases "readElement (n, a, []) [] ts")
      case (Inl e)
      with True 2(3) show ?thesis by simp
    next
      case (Inr r)
      obtain kids rest where r: "r = (kids, rest)" by (cases r)
      obtain e w1 where i: "invoke consume (build kids) w = (e, w1)"
        by (cases "invoke consume (build kids) w")
      from i have c1: "calls w1 = calls w @ [(build kids, e)]" by (rule invoke_calls)
      show ?thesis
      proof (cases e)
        case (Some x)
        with True Inr r i 2(3) have "err = Some x" and "w' = w1" by simp_all
        with c1 Some show ?thesis by simp
      next
        case None
        with True Inr r i 2(3) have "loop tag build consume up rest w1 = (err, w')" by simp
        with 2(1) [OF True Inr [unfolded r] refl i [unfolded None, symmetric] refl]
        obtain new where new: "calls w' = calls w1 @ new"
          and stop: "\<forall>i e. i < length new \<longrightarrow> snd (new ! i) = Some e \<longrightarrow>
              length new = Suc i \<and> err = Some e"
          by auto
        have "\<forall>i e. i < length ((build kids, None) # new) \<longrightarrow>
            snd (((build kids, None) # new) ! i) = Some e \<longrightarrow>
            length ((build kids, None) # new) = Suc i \<and> err = Some e"
        proof (intro allI impI)
          fix i e
          assume "i < length ((build kids, None) # new)"
            and "snd (((build kids, None) # new) ! i) = Some e"
          with stop show "length ((build kids, None) # new) = Suc i \<and> err = Some e"
            by (cases i) auto
        qed
        with new c1 None show ?thesis by simp
      qed
    qed
  qed
qed (auto split: list.splits if_splits)

lemma readElement_append_Inr:
  "readElement cur up ts = Inr (kids, rest) \<Longrightarrow>
   readElement cur up (ts @ sfx) = Inr (kids, rest @ sfx)"
  by (induction cur up ts rule: readElement.induct) (auto split: if_splits list.splits)


text \<open>
  Once the consumer has returned an error, or the tokenizer has failed before the end of
  the stream, the result does not depend on what follows in the stream.
\<close>

lemma loop_stopped_by_consumer:
  "loop tag build consume up ts w = (err, w') \<Longrightarrow> length (calls w) < length (calls w') \<Longrightarrow>
   snd (last (calls w')) \<noteq> None \<Longrightarrow>
   loop tag build consume up (ts @ sfx) w = (err, w')"
proof (induction tag build consume up ts w rule: loop.induct)
  case (2 tag build consume up n a ts w)
  show ?case
  proof (cases "n = tag")
    case False
    with 2 show ?thesis by simp
  next
    case True
    show ?thesis
    proof (cases "readElement (n, a, []) [] ts")
      case (Inl e)
      with True 2(3,4) show ?thesis by simp
    next
      case (Inr r)
      obtain kids rest where r: "r = (kids, rest)" by (cases r)
      from Inr r have app: "readElement (n, a, []) [] (ts @ sfx) = Inr (kids, rest @ sfx)"
        by (simp add: readElement_append_Inr)
      obtain e w1 where i: "invoke consume (build kids) w = (e, w1)"
        by (cases "invoke consume (build kids) w")
      from i have c1: "calls w1 = calls w @ [(build kids, e)]" by (rule invoke_calls)
      show ?thesis
      proof (cases e)
        case (Some x)
        with True Inr r i 2(3) have "err = Some x" and "w' = w1" by simp_all
        with True Inr r i app Some show ?thesis by simp
      next
        case None
        with True Inr r i 2(3) have run: "loop tag build consume up rest w1 = (err, w')" by simp
        from loop_calls [OF run] obtain new where new: "calls w' = calls w1 @ new" by blast
        have "new \<noteq> []"
        proof
          assume "new = []"
          with new c1 None have "snd (last (calls w')) = None" by simp
          with 2(5) show False by simp
        qed
        with new have "length (calls w1) < length (calls w')" by simp
        with 2(1) [OF True Inr [unfolded r] refl i [unfolded None, symmetric] refl run] 2(5)
        have "loop tag build consume up (rest @ sfx) w1 = (err, w')" by simp
        with True app i None show ?thesis by simp
      qed
    qed
  qed
qed (auto split: list.splits if_splits)


subsection \<open>Only whole elements become records\<close>





subsection \<open>Structural errors\<close>




lemma structuralError_tokens_of:
  "structuralError up (tokens_of x @ ts) = structuralError up ts"
proof (induction x arbitrary: up ts)
  case (Element n a kids)
  have "structuralError up' (document ks @ ts') = structuralError up' ts'"
    if "set ks \<subseteq> set kids" for ks up' ts'
    using that Element.IH by (induction ks) (simp_all add: document_Nil document_Cons)
  from this [of kids "n # up" "EndElement n # ts"] show ?case
    by (simp add: document_def)
qed simp_all

lemma wellFormed_document: "wellFormed (document ns)"
proof -
  have "structuralError [] (document ns @ []) = structuralError [] []"
    by (induction ns) (simp_all add: document_Nil document_Cons structuralError_tokens_of)
  then show ?thesis by (simp add: wellFormed_def)
qed


text \<open>
  The three facts about a run of the loop that the claims about a stop and about malformed
  input rest on, for any record-start tag.
\<close>

lemma loop_stop:
  assumes "loop tag build consume [] ts \<lparr>calls = [], state = s\<rparr> = (err, w')"
    and "i < length (calls w')" and "snd (calls w' ! i) = Some e"
  shows "length (calls w') = Suc i \<and> err = Some e
    \<and> (\<forall>sfx. loop tag build consume [] (ts @ sfx) \<lparr>calls = [], state = s\<rparr> = (err, w'))"
proof -
  from loop_calls [OF assms(1)] assms(2,3)
  have stop: "length (calls w') = Suc i" "err = Some e"
    by auto
  with assms(3) have "snd (last (calls w')) \<noteq> None"
    by (cases "calls w'" rule: rev_cases) (auto simp: nth_append)
  with stop loop_stopped_by_consumer [OF assms(1)] show ?thesis
    by simp
qed


section \<open>Properties of \<^verbatim>\<open>Parse\<close> and \<^verbatim>\<open>ParseIndex\<close>\<close>




text \<open>
  Claim C2. \<^verbatim>\<open>Parse\<close> and \<^verbatim>\<open>ParseIndex\<close> return on every stream and with every
  consumer. If an invocation of the consumer returned an error, it was the last invocation
  (the consumer that fails on its Nth record has been invoked N times), the operation
  returns that very error value, and the result is the same whatever tokens follow in the
  stream: nothing after the record was processed.
\<close>

theorem consumer_error_ends_the_run:
  "(\<exists>err w'. Parse pf reader consumer \<lparr>calls = [], state = s\<rparr> = Some (err, w')
      \<and> (\<forall>i e. i < length (calls w') \<longrightarrow> snd (calls w' ! i) = Some e \<longrightarrow>
            length (calls w') = Suc i \<and> err = Some e
            \<and> (\<forall>sfx. Parse pf (reader @ sfx) consumer \<lparr>calls = [], state = s\<rparr> = Some (err, w'))))
   \<and> (\<exists>err w'. ParseIndex indexReader indexConsumer \<lparr>calls = [], state = s\<rparr> = Some (err, w')
      \<and> (\<forall>i e. i < length (calls w') \<longrightarrow> snd (calls w' ! i) = Some e \<longrightarrow>
            length (calls w') = Suc i \<and> err = Some e
            \<and> (\<forall>sfx. ParseIndex (indexReader @ sfx) indexConsumer \<lparr>calls = [], state = s\<rparr> =
                  Some (err, w'))))"
proof (intro conjI)
  let ?build = "\<lambda>kids. unmarshal_sitemapEntry pf kids newSitemapEntry"
  obtain err w' where run: "loop ''url'' ?build consumer [] reader \<lparr>calls = [], state = s\<rparr> = (err, w')"
    by (cases "loop ''url'' ?build consumer [] reader \<lparr>calls = [], state = s\<rparr>")
  have "\<forall>i e. i < length (calls w') \<longrightarrow> snd (calls w' ! i) = Some e \<longrightarrow>
      length (calls w') = Suc i \<and> err = Some e
      \<and> (\<forall>sfx. Parse pf (reader @ sfx) consumer \<lparr>calls = [], state = s\<rparr> = Some (err, w'))"
    using loop_stop [OF run] by (simp add: Parse_is_loop)
  with run show "\<exists>err w'. Parse pf reader consumer \<lparr>calls = [], state = s\<rparr> = Some (err, w')
      \<and> (\<forall>i e. i < length (calls w') \<longrightarrow> snd (calls w' ! i) = Some e \<longrightarrow>
            length (calls w') = Suc i \<and> err = Some e
            \<and> (\<forall>sfx. Parse pf (reader @ sfx) consumer \<lparr>calls = [], state = s\<rparr> = Some (err, w')))"
    by (simp add: Parse_is_loop)
next
  let ?build = "\<lambda>kids. unmarshal_sitemapIndexEntry kids newSitemapIndexEntry"
  obtain err w' where run:
    "loop ''sitemap'' ?build indexConsumer [] indexReader \<lparr>calls = [], state = s\<rparr> = (err, w')"
    by (cases "loop ''sitemap'' ?build indexConsumer [] indexReader \<lparr>calls = [], state = s\<rparr>")
  have "\<forall>i e. i < length (calls w') \<longrightarrow> snd (calls w' ! i) = Some e \<longrightarrow>
      length (calls w') = Suc i \<and> err = Some e
      \<and> (\<forall>sfx. ParseIndex (indexReader @ sfx) indexConsumer \<lparr>calls = [], state = s\<rparr> = Some (err, w'))"
    using loop_stop [OF run] by (simp add: ParseIndex_is_loop)
  with run show "\<exists>err w'. ParseIndex indexReader indexConsumer \<lparr>calls = [], state = s\<rparr> = Some (err, w')
      \<and> (\<forall>i e. i < length (calls w') \<longrightarrow> snd (calls w' ! i) = Some e \<longrightarrow>
            length (calls w') = Suc i \<and> err = Some e
            \<and> (\<forall>sfx. ParseIndex (indexReader @ sfx) indexConsumer \<lparr>calls = [], state = s\<rparr> =
                  Some (err, w')))"
    by (simp add: ParseIndex_is_loop)
qed

text \<open>
  Three \<^verbatim>\<open>url\<close> elements and a consumer that fails on its second record; two
  \<^verbatim>\<open>sitemap\<close> elements and a consumer that fails on its first. What follows the
  document (here a malformed place) makes no difference.
\<close>

theorem consumer_error_ends_the_run_witness:
  "Parse (\<lambda>s. 0)
     (document [Element ''urlset'' []
        [Element ''url'' [] [Element ''loc'' [] [Text ''a'']],
         Element ''url'' [] [Element ''loc'' [] [Text ''b'']],
         Element ''url'' [] [Element ''loc'' [] [Text ''c'']]]])
     (\<lambda>n e. (if n = Suc 0 then Some (errorString ''break error'') else None, Suc n))
     \<lparr>calls = [], state = 0\<rparr> =
   Some (Some (errorString ''break error''),
     \<lparr>calls = [(newSitemapEntry\<lparr>Location := ''a''\<rparr>, None),
               (newSitemapEntry\<lparr>Location := ''b''\<rparr>, Some (errorString ''break error''))],
      state = 2\<rparr>)
   \<and> Parse (\<lambda>s. 0)
     (document [Element ''urlset'' []
        [Element ''url'' [] [Element ''loc'' [] [Text ''a'']],
         Element ''url'' [] [Element ''loc'' [] [Text ''b'']],
         Element ''url'' [] [Element ''loc'' [] [Text ''c'']]]] @ [Malformed])
     (\<lambda>n e. (if n = Suc 0 then Some (errorString ''break error'') else None, Suc n))
     \<lparr>calls = [], state = 0\<rparr> =
   Some (Some (errorString ''break error''),
     \<lparr>calls = [(newSitemapEntry\<lparr>Location := ''a''\<rparr>, None),
               (newSitemapEntry\<lparr>Location := ''b''\<rparr>, Some (errorString ''break error''))],
      state = 2\<rparr>)
   \<and> ParseIndex
     (document [Element ''sitemapindex'' []
        [Element ''sitemap'' [] [Element ''loc'' [] [Text ''x'']],
         Element ''sitemap'' [] [Element ''loc'' [] [Text ''y'']]]])
     (\<lambda>n e. (Some (errorString ''break error''), Suc n))
     \<lparr>calls = [], state = 0\<rparr> =
   Some (Some (errorString ''break error''),
     \<lparr>calls = [(newSitemapIndexEntry\<lparr>IndexLocation := ''x''\<rparr>, Some (errorString ''break error''))],
      state = 1\<rparr>)
   \<and> ParseIndex
     (document [Element ''sitemapindex'' []
        [Element ''sitemap'' [] [Element ''loc'' [] [Text ''x'']],
         Element ''sitemap'' [] [Element ''loc'' [] [Text ''y'']]]] @ [Malformed])
     (\<lambda>n e. (Some (errorString ''break error''), Suc n))
     \<lparr>calls = [], state = 0\<rparr> =
   Some (Some (errorString ''break error''),
     \<lparr>calls = [(newSitemapIndexEntry\<lparr>IndexLocation := ''x''\<rparr>, Some (errorString ''break error''))],
      state = 1\<rparr>)"
proof -
  let ?doc = "document [Element ''urlset'' []
        [Element ''url'' [] [Element ''loc'' [] [Text ''a'']],
         Element ''url'' [] [Element ''loc'' [] [Text ''b'']],
         Element ''url'' [] [Element ''loc'' [] [Text ''c'']]]]"
  let ?idoc = "document [Element ''sitemapindex'' []
        [Element ''sitemap'' [] [Element ''loc'' [] [Text ''x'']],
         Element ''sitemap'' [] [Element ''loc'' [] [Text ''y'']]]]"
  let ?c = "\<lambda>(n :: nat) (e :: sitemapEntry).
      (if n = Suc 0 then Some (errorString ''break error'') else None, Suc n)"
  let ?ci = "\<lambda>(n :: nat) (e :: sitemapIndexEntry). (Some (errorString ''break error''), Suc n)"
  let ?brk = "errorString ''break error''"
  let ?W = "\<lparr>calls = [(newSitemapEntry\<lparr>Location := ''a''\<rparr>, None),
               (newSitemapEntry\<lparr>Location := ''b''\<rparr>, Some ?brk)], state = 2 :: nat\<rparr>"
  let ?WI = "\<lparr>calls = [(newSitemapIndexEntry\<lparr>IndexLocation := ''x''\<rparr>, Some ?brk)],
      state = 1 :: nat\<rparr>"
  have run: "Parse (\<lambda>s. 0) ?doc ?c \<lparr>calls = [], state = 0\<rparr> = Some (Some ?brk, ?W)"
    by (simp add: Parse_is_loop loop_whole_document invoke_def)
  have irun: "ParseIndex ?idoc ?ci \<lparr>calls = [], state = 0\<rparr> = Some (Some ?brk, ?WI)"
    by (simp add: ParseIndex_is_loop loop_whole_document invoke_def)
  from consumer_error_ends_the_run [of "\<lambda>s. 0" ?doc ?c 0 ?idoc ?ci]
  have "\<exists>err w'. Parse (\<lambda>s. 0) ?doc ?c \<lparr>calls = [], state = 0\<rparr> = Some (err, w')
      \<and> (\<forall>i e. i < length (calls w') \<longrightarrow> snd (calls w' ! i) = Some e \<longrightarrow>
            length (calls w') = Suc i \<and> err = Some e
            \<and> (\<forall>sfx. Parse (\<lambda>s. 0) (?doc @ sfx) ?c \<lparr>calls = [], state = 0\<rparr> = Some (err, w')))"
    by (rule conjunct1)
  then obtain err where "\<exists>w'. Parse (\<lambda>s. 0) ?doc ?c \<lparr>calls = [], state = 0\<rparr> = Some (err, w')
      \<and> (\<forall>i e. i < length (calls w') \<longrightarrow> snd (calls w' ! i) = Some e \<longrightarrow>
            length (calls w') = Suc i \<and> err = Some e
            \<and> (\<forall>sfx. Parse (\<lambda>s. 0) (?doc @ sfx) ?c \<lparr>calls = [], state = 0\<rparr> = Some (err, w')))" ..
  then obtain w' where pq: "Parse (\<lambda>s. 0) ?doc ?c \<lparr>calls = [], state = 0\<rparr> = Some (err, w')
      \<and> (\<forall>i e. i < length (calls w') \<longrightarrow> snd (calls w' ! i) = Some e \<longrightarrow>
            length (calls w') = Suc i \<and> err = Some e
            \<and> (\<forall>sfx. Parse (\<lambda>s. 0) (?doc @ sfx) ?c \<lparr>calls = [], state = 0\<rparr> = Some (err, w')))" ..
  from pq have p: "Parse (\<lambda>s. 0) ?doc ?c \<lparr>calls = [], state = 0\<rparr> = Some (err, w')"
    by (rule conjunct1)
  from pq have "\<forall>i e. i < length (calls w') \<longrightarrow> snd (calls w' ! i) = Some e \<longrightarrow>
            length (calls w') = Suc i \<and> err = Some e
            \<and> (\<forall>sfx. Parse (\<lambda>s. 0) (?doc @ sfx) ?c \<lparr>calls = [], state = 0\<rparr> = Some (err, w'))"
    by (rule conjunct2)
  note q = this [rule_format, THEN conjunct2, THEN conjunct2]
  from p [symmetric] run have "Some (err, w') = Some (Some ?brk, ?W)"
    by (rule trans)
  then have w': "err = Some ?brk" "w' = ?W"
    by simp_all
  have "1 < length (calls w')" and "snd (calls w' ! 1) = Some ?brk"
    unfolding w' by simp_all
  then have "\<forall>sfx. Parse (\<lambda>s. 0) (?doc @ sfx) ?c \<lparr>calls = [], state = 0\<rparr> = Some (err, w')"
    by (rule q)
  then have "Parse (\<lambda>s. 0) (?doc @ [Malformed]) ?c \<lparr>calls = [], state = 0\<rparr> = Some (err, w')"
    by (rule spec)
  then have after: "Parse (\<lambda>s. 0) (?doc @ [Malformed]) ?c \<lparr>calls = [], state = 0\<rparr> =
      Some (Some ?brk, ?W)"
    unfolding w' .
  from consumer_error_ends_the_run [of "\<lambda>s. 0" ?doc ?c 0 ?idoc ?ci]
  have "\<exists>err w'. ParseIndex ?idoc ?ci \<lparr>calls = [], state = 0\<rparr> = Some (err, w')
      \<and> (\<forall>i e. i < length (calls w') \<longrightarrow> snd (calls w' ! i) = Some e \<longrightarrow>
            length (calls w') = Suc i \<and> err = Some e
            \<and> (\<forall>sfx. ParseIndex (?idoc @ sfx) ?ci \<lparr>calls = [], state = 0\<rparr> = Some (err, w')))"
    by (rule conjunct2)
  then obtain ierr where "\<exists>w'. ParseIndex ?idoc ?ci \<lparr>calls = [], state = 0\<rparr> = Some (ierr, w')
      \<and> (\<forall>i e. i < length (calls w') \<longrightarrow> snd (calls w' ! i) = Some e \<longrightarrow>
            length (calls w') = Suc i \<and> ierr = Some e
            \<and> (\<forall>sfx. ParseIndex (?idoc @ sfx) ?ci \<lparr>calls = [], state = 0\<rparr> = Some (ierr, w')))" ..
  then obtain iw' where ipq: "ParseIndex ?idoc ?ci \<lparr>calls = [], state = 0\<rparr> = Some (ierr, iw')
      \<and> (\<forall>i e. i < length (calls iw') \<longrightarrow> snd (calls iw' ! i) = Some e \<longrightarrow>
            length (calls iw') = Suc i \<and> ierr = Some e
            \<and> (\<forall>sfx. ParseIndex (?idoc @ sfx) ?ci \<lparr>calls = [], state = 0\<rparr> = Some (ierr, iw')))" ..
  from ipq have ip: "ParseIndex ?idoc ?ci \<lparr>calls = [], state = 0\<rparr> = Some (ierr, iw')"
    by (rule conjunct1)
  from ipq have "\<forall>i e. i < length (calls iw') \<longrightarrow> snd (calls iw' ! i) = Some e \<longrightarrow>
            length (calls iw') = Suc i \<and> ierr = Some e
            \<and> (\<forall>sfx. ParseIndex (?idoc @ sfx) ?ci \<lparr>calls = [], state = 0\<rparr> = Some (ierr, iw'))"
    by (rule conjunct2)
  note iq = this [rule_format, THEN conjunct2, THEN conjunct2]
  from ip [symmetric] irun have "Some (ierr, iw') = Some (Some ?brk, ?WI)"
    by (rule trans)
  then have iw': "ierr = Some ?brk" "iw' = ?WI"
    by simp_all
  have "0 < length (calls iw')" and "snd (calls iw' ! 0) = Some ?brk"
    unfolding iw' by simp_all
  then have "\<forall>sfx. ParseIndex (?idoc @ sfx) ?ci \<lparr>calls = [], state = 0\<rparr> = Some (ierr, iw')"
    by (rule iq)
  then have "ParseIndex (?idoc @ [Malformed]) ?ci \<lparr>calls = [], state = 0\<rparr> = Some (ierr, iw')"
    by (rule spec)
  then have iafter: "ParseIndex (?idoc @ [Malformed]) ?ci \<lparr>calls = [], state = 0\<rparr> =
      Some (Some ?brk, ?WI)"
    unfolding iw' .
  from run after irun iafter show ?thesis by (intro conjI)
qed




section \<open>Properties of the retrieval\<close>


lemma get_gzip:
  assumes "NewRequestWithContext env ctx ''GET'' url = Inr req"
    and "Do env (req\<lparr>RequestHeader := (RequestHeader req)(''User-Agent'' \<mapsto> userAgent)\<rparr>) = Inr res"
    and "StatusCode res < 400"
    and "Header_Get (Header res) ''Content-Encoding'' = ''gzip''"
    and "gzip_NewReader env (Body res) = Inr plain"
  shows "get env ctx url =
    (Inr \<lparr>content = plain, handle = GzipReader url\<rparr>,
     [Opened (ResponseBody url), Opened (GzipReader url)])"
  using assms by (simp add: get_def)

lemma get_plain:
  assumes "NewRequestWithContext env ctx ''GET'' url = Inr req"
    and "Do env (req\<lparr>RequestHeader := (RequestHeader req)(''User-Agent'' \<mapsto> userAgent)\<rparr>) = Inr res"
    and "StatusCode res < 400"
    and "Header_Get (Header res) ''Content-Encoding'' \<noteq> ''gzip''"
  shows "get env ctx url =
    (Inr \<lparr>content = Body res, handle = ResponseBody url\<rparr>, [Opened (ResponseBody url)])"
  using assms by (simp add: get_def)




subsection \<open>Closing the byte source\<close>

text \<open>
  The file of \<^verbatim>\<open>ParseFromFile\<close> and \<^verbatim>\<open>ParseIndexFromFile\<close> is closed exactly once
  whatever the parse returns, and so is the response body of \<^verbatim>\<open>ParseFromSite\<close> and
  \<^verbatim>\<open>ParseIndexFromSite\<close> when the response is not gzip-encoded.
\<close>

lemma file_closed_once:
  assumes "OpenFile env sitemapPath = Inr bytes"
  shows "\<exists>r trace. ParseFromFile env pf sitemapPath consumer w = Some (r, trace)
      \<and> closings (File sitemapPath) trace = 1"
    and "\<exists>r trace. ParseIndexFromFile env sitemapPath indexConsumer iw = Some (r, trace)
      \<and> closings (File sitemapPath) trace = 1"
  using assms
  by (simp_all add: ParseFromFile_def ParseIndexFromFile_def Parse_is_loop ParseIndex_is_loop
      Close_def closings_def)

lemma plain_body_closed_once:
  assumes "NewRequestWithContext env ctx ''GET'' url = Inr req"
    and "Do env (req\<lparr>RequestHeader := (RequestHeader req)(''User-Agent'' \<mapsto> userAgent)\<rparr>) = Inr res"
    and "StatusCode res < 400"
    and "Header_Get (Header res) ''Content-Encoding'' \<noteq> ''gzip''"
  shows "\<exists>r trace. ParseFromSite env pf ctx url consumer w = Some (r, trace)
      \<and> closings (ResponseBody url) trace = 1"
    and "\<exists>r trace. ParseIndexFromSite env ctx url indexConsumer iw = Some (r, trace)
      \<and> closings (ResponseBody url) trace = 1"
  using get_plain [OF assms]
  by (simp_all add: ParseFromSite_def ParseIndexFromSite_def Parse_is_loop ParseIndex_is_loop
      Close_def closings_def)

lemma gzip_body_never_closed:
  assumes "NewRequestWithContext env ctx ''GET'' url = Inr req"
    and "Do env (req\<lparr>RequestHeader := (RequestHeader req)(''User-Agent'' \<mapsto> userAgent)\<rparr>) = Inr res"
    and "StatusCode res < 400"
    and "Header_Get (Header res) ''Content-Encoding'' = ''gzip''"
    and "gzip_NewReader env (Body res) = Inr plain"
  shows "\<exists>r trace. ParseFromSite env pf ctx url consumer w = Some (r, trace)
      \<and> Opened (ResponseBody url) \<in> set trace \<and> closings (ResponseBody url) trace = 0"
    and "\<exists>r trace. ParseIndexFromSite env ctx url indexConsumer iw = Some (r, trace)
      \<and> Opened (ResponseBody url) \<in> set trace \<and> closings (ResponseBody url) trace = 0"
  using get_gzip [OF assms]
  by (simp_all add: ParseFromSite_def ParseIndexFromSite_def Parse_is_loop ParseIndex_is_loop
      Close_def closings_def)


end
